theory Spec2Isabelle
  imports Main
begin

section \<open>Data model of \<^verbatim>\<open>packages/gatsby/src/redux/actions.js\<close>\<close>

text \<open>
  The action creators work on plain JavaScript objects. A property that may be absent
  (\<^verbatim>\<open>undefined\<close>) is an \<open>option\<close>. An object used as a dictionary (\<^verbatim>\<open>typeOwners\<close>,
  \<^verbatim>\<open>fieldOwners\<close>, \<^verbatim>\<open>fields\<close>) is the map of its own properties; reading a key of it finds
  the members that every object inherits from \<^verbatim>\<open>Object.prototype\<close> as well
  (\<open>getProperty\<close> below). The field names \<open>id\<close> and \<open>fields\<close> of the source carry a
  prime here.
\<close>

record internal =
  type :: "string option"
  owner :: "string option"
  contentDigest :: "string option"
  fieldOwners :: "(string \<rightharpoonup> string) option"
  mediaType :: "string option"
  content :: "string option"

record node =
  id' :: string
  parent :: string
  children :: "string list"
  fields' :: "(string \<rightharpoonup> string) option"
  internal :: "internal option"

record plugin =
  name :: string

record page =
  path :: string
  component :: string
  "context" :: "(string \<rightharpoonup> string) option"
  componentChunkName :: "string option"
  jsonName :: "string option"
  internalComponentName :: "string option"

text \<open>
  The returned action objects, one constructor per \<^verbatim>\<open>type\<close> tag, with the \<^verbatim>\<open>plugin\<close> and
  \<^verbatim>\<open>payload\<close> properties as arguments. A \<open>plugin\<close> argument of \<open>None\<close> is an omitted
  argument (\<^verbatim>\<open>undefined\<close>, or the default \<^verbatim>\<open>``\<close> where the source declares one).
\<close>

datatype action =
    DELETE_PAGE page
  | CREATE_PAGE "plugin option" page
  | DELETE_NODE "plugin option" string
  | DELETE_NODES "plugin option" "string list"
  | VALIDATION_ERROR
  | TOUCH_NODE "plugin option" string
  | CREATE_NODE "plugin option" node
  | ADD_FIELD_TO_NODE "plugin option" node
  | ADD_CHILD_NODE_TO_PARENT_NODE "plugin option" node

text \<open>
  Every \<^verbatim>\<open>throw new Error(...)\<close> of the source is one constructor, named after the error
  taxonomy of the specification:
  \<^item> \<open>ReservedFieldViolation\<close>: lines 195--213, the node sets \<^verbatim>\<open>fields\<close>;
  \<^item> \<open>OwnershipConflict\<close>: lines 220--239, the node type is owned by another plugin;
  \<^item> \<open>OwnershipViolation\<close>: lines 246--255, the stored node is owned by another plugin;
  \<^item> \<open>FieldOwnershipConflict\<close>: lines 298--309, the node field is owned by another plugin;
  \<^item> \<open>TypeError\<close>: the error JavaScript raises when a property of \<^verbatim>\<open>undefined\<close> is read.

  A call returns \<open>Inl e\<close> when it throws \<open>e\<close>, \<open>Inr None\<close> when it returns
  \<^verbatim>\<open>undefined\<close> and \<open>Inr (Some a)\<close> when it returns the action \<open>a\<close>.
\<close>

datatype error =
    TypeError
  | ReservedFieldViolation
  | OwnershipConflict
  | OwnershipViolation
  | FieldOwnershipConflict

type_synonym outcome = "error + action option"

text \<open>
  The shared state: the module-level \<^verbatim>\<open>typeOwners\<close> object (line 116) and the nodes of
  the redux store that \<^verbatim>\<open>getNode\<close> and \<^verbatim>\<open>hasNodeChanged\<close> read.
\<close>

record state =
  typeOwners :: "string \<rightharpoonup> string"
  nodes :: "string \<rightharpoonup> node"

section \<open>JavaScript and lodash primitives\<close>

text \<open>
  What reading \<^verbatim>\<open>obj[key]\<close> gives for an object \<^verbatim>\<open>obj\<close> that was made by \<^verbatim>\<open>{}\<close> and holds
  strings: the string stored under the key, or else the member of \<^verbatim>\<open>Object.prototype\<close> of
  that name (a function, or for \<^verbatim>\<open>__proto__\<close> the prototype object), or else
  \<^verbatim>\<open>undefined\<close>.
\<close>

datatype property = Undefined | Str string | Inherited

definition objectPrototypeNames :: "string list" where
  "objectPrototypeNames =
     [''constructor'', ''hasOwnProperty'', ''isPrototypeOf'', ''propertyIsEnumerable'',
      ''toLocaleString'', ''toString'', ''valueOf'', ''__proto__'', ''__defineGetter__'',
      ''__defineSetter__'', ''__lookupGetter__'', ''__lookupSetter__'']"

definition getProperty :: "(string \<rightharpoonup> string) \<Rightarrow> string \<Rightarrow> property" where
  "getProperty obj key =
     (case obj key of
        Some v \<Rightarrow> Str v
      | None \<Rightarrow> if key \<in> set objectPrototypeNames then Inherited else Undefined)"

text \<open>
  The assignment \<^verbatim>\<open>obj[key] = value\<close> of a string: it makes or overwrites the own property,
  except that the inherited setter \<^verbatim>\<open>__proto__\<close> ignores a string.
\<close>

definition setProperty ::
  "(string \<rightharpoonup> string) \<Rightarrow> string \<Rightarrow> string \<Rightarrow> (string \<rightharpoonup> string)" where
  "setProperty obj key v =
     (if key = ''__proto__'' \<and> obj key = None then obj else obj(key \<mapsto> v))"

text \<open>
  Truthiness: \<^verbatim>\<open>undefined\<close> and the empty string are falsy, every other string and every
  inherited member is truthy.
\<close>

fun truthy :: "property \<Rightarrow> bool" where
  "truthy Undefined = False"
| "truthy (Str s) = (s \<noteq> [])"
| "truthy Inherited = True"

text \<open>A value used as a property key: \<^verbatim>\<open>undefined\<close> becomes the key \<^verbatim>\<open>"undefined"\<close>.\<close>

fun propertyKey :: "string option \<Rightarrow> string" where
  "propertyKey None = ''undefined''"
| "propertyKey (Some s) = s"

text \<open>
  \<^verbatim>\<open>_.uniq\<close>: the first occurrence of every element is kept, in order. The loop of
  lodash's \<^verbatim>\<open>baseUniq\<close> pushes a value unless the result built so far includes it.
\<close>

fun uniqFrom :: "'a list \<Rightarrow> 'a list \<Rightarrow> 'a list" where
  "uniqFrom seen [] = []"
| "uniqFrom seen (x # xs) =
     (if x \<in> set seen then uniqFrom seen xs else x # uniqFrom (x # seen) xs)"

definition uniq :: "'a list \<Rightarrow> 'a list" where
  "uniq xs = uniqFrom [] xs"

text \<open>
  The case functions of lodash on ASCII strings. \<^verbatim>\<open>_.words\<close> splits a string into maximal
  runs of letters and digits, and splits a run between a letter and a digit, between a
  lower-case and an upper-case letter, and before the last letter of an upper-case run
  that a lower-case letter follows (\<^verbatim>\<open>XMLHttp\<close> gives \<^verbatim>\<open>XML\<close>, \<^verbatim>\<open>Http\<close>). Apostrophes are
  removed before splitting.
\<close>

definition lowerChars :: string where
  "lowerChars = ''abcdefghijklmnopqrstuvwxyz''"

definition upperChars :: string where
  "upperChars = ''ABCDEFGHIJKLMNOPQRSTUVWXYZ''"

definition digitChars :: string where
  "digitChars = ''0123456789''"

definition isLower :: "char \<Rightarrow> bool" where
  "isLower c = (c \<in> set lowerChars)"

definition isUpper :: "char \<Rightarrow> bool" where
  "isUpper c = (c \<in> set upperChars)"

definition isDigit :: "char \<Rightarrow> bool" where
  "isDigit c = (c \<in> set digitChars)"

definition isBreak :: "char \<Rightarrow> bool" where
  "isBreak c = (\<not> isLower c \<and> \<not> isUpper c \<and> \<not> isDigit c)"

definition toLowerChar :: "char \<Rightarrow> char" where
  "toLowerChar c = (case map_of (zip upperChars lowerChars) c of None \<Rightarrow> c | Some l \<Rightarrow> l)"

definition toUpperChar :: "char \<Rightarrow> char" where
  "toUpperChar c = (case map_of (zip lowerChars upperChars) c of None \<Rightarrow> c | Some u \<Rightarrow> u)"

definition toLowerCase :: "string \<Rightarrow> string" where
  "toLowerCase s = map toLowerChar s"

fun upperFirst :: "string \<Rightarrow> string" where
  "upperFirst [] = []"
| "upperFirst (c # cs) = toUpperChar c # cs"

definition capitalize :: "string \<Rightarrow> string" where
  "capitalize s = upperFirst (toLowerCase s)"

text \<open>
  \<open>wordBoundary l c rest\<close>: a new word starts at \<open>c\<close>, where \<open>l\<close> is the character before
  \<open>c\<close> in the current run and \<open>rest\<close> is what follows \<open>c\<close>.
\<close>

definition wordBoundary :: "char \<Rightarrow> char \<Rightarrow> string \<Rightarrow> bool" where
  "wordBoundary l c rest =
     (if isDigit l then \<not> isDigit c
      else if isDigit c then True
      else if isLower l then isUpper c
      else (isUpper c \<and> (case rest of [] \<Rightarrow> False | d # _ \<Rightarrow> isLower d)))"

fun wordsFrom :: "string \<Rightarrow> string \<Rightarrow> string list" where
  "wordsFrom cur [] = (if cur = [] then [] else [cur])"
| "wordsFrom cur (c # cs) =
     (if isBreak c then (if cur = [] then [] else [cur]) @ wordsFrom [] cs
      else if cur = [] then wordsFrom [c] cs
      else if wordBoundary (last cur) c cs then cur # wordsFrom [c] cs
      else wordsFrom (cur @ [c]) cs)"

definition words :: "string \<Rightarrow> string list" where
  "words s = wordsFrom [] (filter (\<lambda>c. c \<noteq> CHR 0x27) s)"

text \<open>
  \<^verbatim>\<open>_.kebabCase\<close> and \<^verbatim>\<open>_.camelCase\<close> reduce the words of the string from the left, with
  the index of the word; \<^verbatim>\<open>pascalCase\<close> is line 29 of the source,
  \<^verbatim>\<open>_.flow(_.camelCase, _.upperFirst)\<close>.
\<close>

definition kebabCase :: "string \<Rightarrow> string" where
  "kebabCase s =
     fold (\<lambda>(index, word) result. result @ (if index \<noteq> 0 then ''-'' else []) @ toLowerCase word)
       (enumerate (0::nat) (words s)) []"

definition camelCase :: "string \<Rightarrow> string" where
  "camelCase s =
     fold (\<lambda>(index, word) result.
             result @ (if index \<noteq> 0 then capitalize (toLowerCase word) else toLowerCase word))
       (enumerate (0::nat) (words s)) []"

definition pascalCase :: "string \<Rightarrow> string" where
  "pascalCase s = upperFirst (camelCase s)"

section \<open>The store, as the action creators read it\<close>

text \<open>
  Modelled from the spec: \<^verbatim>\<open>getNode\<close> of \<^verbatim>\<open>./index\<close>, which is not among the sources.
  ``\<^verbatim>\<open>getNode(id) -> Node | absent\<close>: authoritative current-state lookup''.
\<close>

definition getNode :: "state \<Rightarrow> string \<Rightarrow> node option" where
  "getNode st i = nodes st i"

text \<open>
  Modelled from the spec: \<^verbatim>\<open>hasNodeChanged\<close> of \<^verbatim>\<open>./index\<close>, which is not among the
  sources. ``\<^verbatim>\<open>hasNodeChanged(id, newDigest) -> bool\<close>: compares stored digest to candidate
  digest''. The stored digest is \<^verbatim>\<open>internal.contentDigest\<close> of the stored node; a node that
  is not stored, or stores no digest equal to the candidate, has changed.
\<close>

definition hasNodeChanged :: "state \<Rightarrow> string \<Rightarrow> string option \<Rightarrow> bool" where
  "hasNodeChanged st i digest =
     (case getNode st i of
        None \<Rightarrow> True
      | Some n \<Rightarrow> (case internal n of None \<Rightarrow> True | Some oi \<Rightarrow> contentDigest oi \<noteq> digest))"

section \<open>Pages\<close>

text \<open>
  Lines 51--66 of \<^verbatim>\<open>actions.createPage\<close>: the derived keys are written to the page and
  the page gets an empty context if it has none. \<^verbatim>\<open>layoutComponentChunkName\<close>
  (\<^verbatim>\<open>../utils/js-chunk-names\<close>) is a parameter.
\<close>

definition withDerivedKeys :: "(string \<Rightarrow> string) \<Rightarrow> page \<Rightarrow> page" where
  "withDerivedKeys layoutComponentChunkName page0 =
     (let page1 = page0\<lparr>componentChunkName := Some (layoutComponentChunkName (component page0))\<rparr>;
          jsonName0 = kebabCase (path page1) @ ''.json'';
          internalComponentName0 = ''Component'' @ pascalCase (path page1);
          jsonName1 = (if jsonName0 = ''.json'' then ''index.json'' else jsonName0);
          internalComponentName1 =
            (if jsonName0 = ''.json'' then ''ComponentIndex'' else internalComponentName0);
          page2 = page1\<lparr>jsonName := Some jsonName1,
                         internalComponentName := Some internalComponentName1\<rparr>
      in if context page2 = None then page2\<lparr>context := Some Map.empty\<rparr> else page2)"

text \<open>
  \<^verbatim>\<open>actions.createPage\<close>, lines 50--86. The validation against
  \<^verbatim>\<open>joiSchemas.pageSchema\<close> is a parameter. The page object is changed in place: the first
  component of the result is the page after the call, the second what the call returns.
  An empty path has no first character, and gets the slash as well.
\<close>

definition createPage ::
  "(string \<Rightarrow> string) \<Rightarrow> (page \<Rightarrow> bool) \<Rightarrow> page \<Rightarrow> plugin option \<Rightarrow> page \<times> outcome" where
  "createPage layoutComponentChunkName pageSchema page0 plugin =
     (let page3 = withDerivedKeys layoutComponentChunkName page0
      in if \<not> pageSchema page3 then (page3, Inr None)
         else
           let page4 =
                 (if (case path page3 of [] \<Rightarrow> True | c # _ \<Rightarrow> c \<noteq> CHR ''/'')
                  then page3\<lparr>path := ''/'' @ path page3\<rparr> else page3)
           in (page4, Inr (Some (CREATE_PAGE plugin page4))))"

section \<open>Nodes\<close>

text \<open>\<^verbatim>\<open>actions.deleteNode\<close> (lines 94--100) and \<^verbatim>\<open>actions.deleteNodes\<close> (lines 108--114).\<close>

definition deleteNode :: "string \<Rightarrow> plugin option \<Rightarrow> outcome" where
  "deleteNode nodeId plugin = Inr (Some (DELETE_NODE plugin nodeId))"

definition deleteNodes :: "string list \<Rightarrow> plugin option \<Rightarrow> outcome" where
  "deleteNodes ns plugin = Inr (Some (DELETE_NODES plugin ns))"

text \<open>
  Lines 176--184 of \<^verbatim>\<open>actions.createNode\<close>: the node gets an \<^verbatim>\<open>internal\<close> object if it has
  none, and the name of the plugin, if there is a plugin, is written to
  \<^verbatim>\<open>internal.owner\<close>.
\<close>

definition emptyInternal :: internal where
  "emptyInternal =
     \<lparr>type = None, owner = None, contentDigest = None, fieldOwners = None,
      mediaType = None, content = None\<rparr>"

definition ensureInternal :: "node \<Rightarrow> internal" where
  "ensureInternal n = (case internal n of None \<Rightarrow> emptyInternal | Some i \<Rightarrow> i)"

definition setOwner :: "node \<Rightarrow> plugin option \<Rightarrow> node" where
  "setOwner n plugin =
     (case plugin of
        None \<Rightarrow> n\<lparr>internal := Some (ensureInternal n)\<rparr>
      | Some p \<Rightarrow> n\<lparr>internal := Some ((ensureInternal n)\<lparr>owner := Some (name p)\<rparr>)\<rparr>)"

text \<open>The key under which \<^verbatim>\<open>typeOwners\<close> is read and written: \<^verbatim>\<open>node.internal.type\<close>.\<close>

definition typeKey :: "node \<Rightarrow> string" where
  "typeKey n = propertyKey (type (ensureInternal n))"

text \<open>
  The result of \<^verbatim>\<open>actions.createNode\<close>: the state and the argument object after the
  call, and what the call returns or throws.
\<close>

record createNodeResult =
  stateAfter :: state
  nodeAfter :: "node option"
  returned :: outcome

text \<open>
  Lines 242--270 of \<^verbatim>\<open>actions.createNode\<close>, reached with a plugin and after the type
  of the node has been claimed or found to be owned by the plugin: the check of the
  owner of a node stored under the same id, and the choice between \<^verbatim>\<open>TOUCH_NODE\<close> and
  \<^verbatim>\<open>CREATE_NODE\<close>.
\<close>

definition createNodeAfterTypeClaim :: "state \<Rightarrow> node \<Rightarrow> plugin \<Rightarrow> createNodeResult" where
  "createNodeAfterTypeClaim st node p =
     (case getNode st (id' node) of
        None \<Rightarrow>
          \<lparr>stateAfter = st, nodeAfter = Some node,
           returned = Inr (Some (CREATE_NODE (Some p) node))\<rparr>
      | Some oldNode \<Rightarrow>
          (case internal oldNode of
             None \<Rightarrow> \<lparr>stateAfter = st, nodeAfter = Some node, returned = Inl TypeError\<rparr>
           | Some oi \<Rightarrow>
               if owner oi \<noteq> Some (name p) then
                 \<lparr>stateAfter = st, nodeAfter = Some node, returned = Inl OwnershipViolation\<rparr>
               else if \<not> hasNodeChanged st (id' node) (contentDigest (ensureInternal node)) then
                 \<lparr>stateAfter = st, nodeAfter = Some node,
                  returned = Inr (Some (TOUCH_NODE (Some p) (id' node)))\<rparr>
               else
                 \<lparr>stateAfter = st, nodeAfter = Some node,
                  returned = Inr (Some (CREATE_NODE (Some p) node))\<rparr>))"

text \<open>
  \<^verbatim>\<open>actions.createNode\<close>, lines 167--271. The validation against
  \<^verbatim>\<open>joiSchemas.nodeSchema\<close> is a parameter. The argument \<open>None\<close> is a value that is not an
  object (line 168). Without a plugin, line 220 reads \<^verbatim>\<open>plugin.name\<close> of \<^verbatim>\<open>undefined\<close>.
  The node object passed in is an object of its own: it is not one of the objects that
  the store holds, so that writing to it does not write to the store.
\<close>

definition createNode ::
  "(node \<Rightarrow> bool) \<Rightarrow> state \<Rightarrow> node option \<Rightarrow> plugin option \<Rightarrow> createNodeResult" where
  "createNode nodeSchema st arg plugin =
     (case arg of
        None \<Rightarrow> \<lparr>stateAfter = st, nodeAfter = None, returned = Inr None\<rparr>
      | Some node0 \<Rightarrow>
          let node = setOwner node0 plugin in
          if \<not> nodeSchema node then
            \<lparr>stateAfter = st, nodeAfter = Some node, returned = Inr (Some VALIDATION_ERROR)\<rparr>
          else if fields' node \<noteq> None then
            \<lparr>stateAfter = st, nodeAfter = Some node, returned = Inl ReservedFieldViolation\<rparr>
          else
            (case plugin of
               None \<Rightarrow> \<lparr>stateAfter = st, nodeAfter = Some node, returned = Inl TypeError\<rparr>
             | Some p \<Rightarrow>
                 if \<not> truthy (getProperty (typeOwners st) (typeKey node)) then
                   createNodeAfterTypeClaim
                     (st\<lparr>typeOwners := setProperty (typeOwners st) (typeKey node) (name p)\<rparr>)
                     node p
                 else if getProperty (typeOwners st) (typeKey node) \<noteq> Str (name p) then
                   \<lparr>stateAfter = st, nodeAfter = Some node, returned = Inl OwnershipConflict\<rparr>
                 else createNodeAfterTypeClaim st node p))"

text \<open>
  \<^verbatim>\<open>actions.createNodeField\<close>, lines 287--320. The node object is changed in place: the
  first component of the result is the node after the call. Without a plugin, reading
  \<^verbatim>\<open>plugin.name\<close> raises a \<open>TypeError\<close>: at line 298 when the field has an owner, and
  otherwise at line 313, after line 312 has written the field.
\<close>

definition createNodeField ::
  "node \<Rightarrow> string \<Rightarrow> string \<Rightarrow> plugin option \<Rightarrow> node \<times> outcome" where
  "createNodeField node0 fieldName fieldValue plugin =
     (case internal node0 of
        None \<Rightarrow> (node0, Inl TypeError)
      | Some i \<Rightarrow>
          let owners = (case fieldOwners i of None \<Rightarrow> Map.empty | Some m \<Rightarrow> m);
              fs = (case fields' node0 of None \<Rightarrow> Map.empty | Some f \<Rightarrow> f);
              node1 = node0\<lparr>fields' := Some fs, internal := Some (i\<lparr>fieldOwners := Some owners\<rparr>)\<rparr>;
              fieldOwner = getProperty owners fieldName
          in (case plugin of
                None \<Rightarrow>
                  if truthy fieldOwner then (node1, Inl TypeError)
                  else
                    (node1\<lparr>fields' := Some (setProperty fs fieldName fieldValue)\<rparr>,
                     Inl TypeError)
              | Some p \<Rightarrow>
                  if truthy fieldOwner \<and> fieldOwner \<noteq> Str (name p) then
                    (node1, Inl FieldOwnershipConflict)
                  else
                    let node2 =
                          node1\<lparr>fields' := Some (setProperty fs fieldName fieldValue),
                                internal :=
                                  Some (i\<lparr>fieldOwners :=
                                          Some (setProperty owners fieldName (name p))\<rparr>)\<rparr>
                    in (node2, Inr (Some (ADD_FIELD_TO_NODE (Some p) node2)))))"

text \<open>
  \<^verbatim>\<open>actions.addNodeToParent\<close>, lines 322--332. The parent object is changed in place: the
  first component of the result is the parent after the call.
\<close>

definition addNodeToParent :: "node \<Rightarrow> node \<Rightarrow> plugin option \<Rightarrow> node \<times> outcome" where
  "addNodeToParent parent0 child plugin =
     (let parent1 = parent0\<lparr>children := uniq (children parent0 @ [id' child])\<rparr>
      in (parent1, Inr (Some (ADD_CHILD_NODE_TO_PARENT_NODE plugin parent1))))"

section \<open>Histories of calls\<close>

text \<open>
  What happens to the state over time: plugins call \<^verbatim>\<open>createNode\<close>, and between the calls
  the dispatcher, which is outside this module, replaces the nodes of the store.
\<close>

datatype step =
    CreateNodeCall "node option" "plugin option"
  | StoreUpdate "string \<rightharpoonup> node"

fun run :: "(node \<Rightarrow> bool) \<Rightarrow> state \<Rightarrow> step list \<Rightarrow> state" where
  "run nodeSchema st [] = st"
| "run nodeSchema st (CreateNodeCall arg plugin # steps) =
     run nodeSchema (stateAfter (createNode nodeSchema st arg plugin)) steps"
| "run nodeSchema st (StoreUpdate ns # steps) = run nodeSchema (st\<lparr>nodes := ns\<rparr>) steps"


section \<open>Reading a node\<close>

text \<open>
  The value that the node itself holds for a field, as an own property of
  \<^verbatim>\<open>node.fields\<close>; and what \<^verbatim>\<open>createNodeField\<close> reads at line 297 as the owner of a field,
  \<^verbatim>\<open>node.internal.fieldOwners[fieldName]\<close>, where a missing \<^verbatim>\<open>fieldOwners\<close> has been
  replaced by \<^verbatim>\<open>{}\<close>.
\<close>

definition fieldValueOf :: "node \<Rightarrow> string \<Rightarrow> string option" where
  "fieldValueOf n fieldName = (case fields' n of None \<Rightarrow> None | Some fs \<Rightarrow> fs fieldName)"

definition fieldOwnerOf :: "node \<Rightarrow> string \<Rightarrow> property" where
  "fieldOwnerOf n fieldName =
     (case internal n of
        None \<Rightarrow> Undefined
      | Some i \<Rightarrow>
          getProperty (case fieldOwners i of None \<Rightarrow> Map.empty | Some owners \<Rightarrow> owners)
            fieldName)"

section \<open>Example data\<close>

text \<open>
  Concrete plugins, nodes, pages and schemas, on which the theorems below are evaluated.
  The example node schema requires an id and, in \<^verbatim>\<open>internal\<close>, a type, a content digest
  and an owner; the example page schema requires a path and a component.
\<close>

definition exampleNodeSchema :: "node \<Rightarrow> bool" where
  "exampleNodeSchema n =
     (id' n \<noteq> [] \<and>
      (case internal n of
         None \<Rightarrow> False
       | Some i \<Rightarrow> type i \<noteq> None \<and> contentDigest i \<noteq> None \<and> owner i \<noteq> None))"

definition examplePageSchema :: "page \<Rightarrow> bool" where
  "examplePageSchema pg = (path pg \<noteq> [] \<and> component pg \<noteq> [])"

definition exampleChunkName :: "string \<Rightarrow> string" where
  "exampleChunkName c = ''component---'' @ kebabCase c"

definition pluginP :: plugin where
  "pluginP = \<lparr>name = ''source-p''\<rparr>"

definition pluginQ :: plugin where
  "pluginQ = \<lparr>name = ''source-q''\<rparr>"

definition exampleNode :: "string \<Rightarrow> string \<Rightarrow> string \<Rightarrow> node" where
  "exampleNode i t digest =
     \<lparr>id' = i, parent = ''___SOURCE___'', children = [], fields' = None,
      internal = Some \<lparr>type = Some t, owner = None, contentDigest = Some digest,
                       fieldOwners = None, mediaType = Some ''text/x-markdown'',
                       content = None\<rparr>\<rparr>"

text \<open>
  A node object with an id only, and a node that sets \<^verbatim>\<open>fields\<close> as in
  \<^verbatim>\<open>createNode({..., fields: {x: 1}}, plugin)\<close>.
\<close>

definition bareNode :: "string \<Rightarrow> node" where
  "bareNode i = \<lparr>id' = i, parent = [], children = [], fields' = None, internal = None\<rparr>"

definition presetFields :: "node \<Rightarrow> node" where
  "presetFields n = n\<lparr>fields' := Some [''x'' \<mapsto> ''1'']\<rparr>"

definition emptyState :: state where
  "emptyState = \<lparr>typeOwners = Map.empty, nodes = Map.empty\<rparr>"

text \<open>
  The state after \<open>pluginP\<close> has created the node \<^verbatim>\<open>a\<close> of type \<^verbatim>\<open>Post\<close> with digest
  \<^verbatim>\<open>d1\<close>, and the dispatcher has stored it.
\<close>

definition stateP :: state where
  "stateP =
     \<lparr>typeOwners = [''Post'' \<mapsto> ''source-p''],
      nodes = [''a'' \<mapsto> setOwner (exampleNode ''a'' ''Post'' ''d1'') (Some pluginP)]\<rparr>"

definition examplePage :: "string \<Rightarrow> string \<Rightarrow> page" where
  "examplePage p c =
     \<lparr>path = p, component = c, context = None, componentChunkName = None,
      jsonName = None, internalComponentName = None\<rparr>"

section \<open>Children of a parent node\<close>

lemma uniqFrom_set: "set (uniqFrom seen xs) = set xs - set seen"
  by (induction xs arbitrary: seen) auto

lemma uniqFrom_distinct: "distinct (uniqFrom seen xs)"
  by (induction xs arbitrary: seen) (auto simp: uniqFrom_set)

lemma uniqFrom_snoc:
  "uniqFrom seen (xs @ [c]) = uniqFrom seen xs @ (if c \<in> set seen \<union> set xs then [] else [c])"
  by (induction xs arbitrary: seen) auto

lemma uniqFrom_id: "distinct xs \<Longrightarrow> set xs \<inter> set seen = {} \<Longrightarrow> uniqFrom seen xs = xs"
  by (induction xs arbitrary: seen) auto

lemma uniq_distinct: "distinct (uniq xs)"
  by (simp add: uniq_def uniqFrom_distinct)

lemma uniq_set: "set (uniq xs) = set xs"
  by (simp add: uniq_def uniqFrom_set)

lemma uniq_idem_snoc: "c \<in> set ys \<Longrightarrow> distinct ys \<Longrightarrow> uniq (ys @ [c]) = ys"
  by (simp add: uniq_def uniqFrom_snoc uniqFrom_id)

lemma count_list_distinct: "distinct xs \<Longrightarrow> x \<in> set xs \<Longrightarrow> count_list xs x = 1"
  by (induction xs) auto

text \<open>
  Claim C9. For every parent node and child node, after one call of \<^verbatim>\<open>addNodeToParent\<close>
  and after a second call with the same child, the children of the parent hold no id
  twice and hold the id of the child exactly once; the second call leaves the list as the
  first one made it. The ids in the list are those that were there before and the id of
  the child. This holds whatever the children of the parent were before, and whichever
  plugins call.
\<close>

theorem addNodeToParent_twice_no_duplicates:
  "distinct (children (fst (addNodeToParent parent0 child pl)))
   \<and> count_list (children (fst (addNodeToParent parent0 child pl))) (id' child) = 1
   \<and> distinct (children (fst (addNodeToParent (fst (addNodeToParent parent0 child pl)) child pl')))
   \<and> count_list (children (fst (addNodeToParent (fst (addNodeToParent parent0 child pl)) child pl')))
        (id' child) = 1
   \<and> children (fst (addNodeToParent (fst (addNodeToParent parent0 child pl)) child pl'))
       = children (fst (addNodeToParent parent0 child pl))
   \<and> set (children (fst (addNodeToParent parent0 child pl)))
       = set (children parent0) \<union> {id' child}"
  by (simp add: addNodeToParent_def Let_def uniq_distinct uniq_set count_list_distinct
        uniq_idem_snoc)

section \<open>Keys derived from the path of a page\<close>

lemma kebabCase_root: "kebabCase ''/'' = []"
  by code_simp

lemma kebabCase_blog: "kebabCase ''/blog/my-post'' = ''blog-my-post''"
  by code_simp

lemma pascalCase_blog: "pascalCase ''/blog/my-post'' = ''BlogMyPost''"
  by code_simp

lemma withDerivedKeys_path: "path (withDerivedKeys chunk pg) = path pg"
  by (simp add: withDerivedKeys_def Let_def)

lemma withDerivedKeys_jsonName:
  "jsonName (withDerivedKeys chunk pg) =
     Some (if kebabCase (path pg) = [] then ''index.json'' else kebabCase (path pg) @ ''.json'')"
  by (simp add: withDerivedKeys_def Let_def)

lemma withDerivedKeys_internalComponentName:
  "internalComponentName (withDerivedKeys chunk pg) =
     Some (if kebabCase (path pg) = [] then ''ComponentIndex''
           else ''Component'' @ pascalCase (path pg))"
  by (simp add: withDerivedKeys_def Let_def)

lemma createPage_fst_keys:
  "jsonName (fst (createPage chunk schema pg pl)) = jsonName (withDerivedKeys chunk pg)
   \<and> internalComponentName (fst (createPage chunk schema pg pl))
       = internalComponentName (withDerivedKeys chunk pg)"
  by (simp add: createPage_def Let_def)

lemma no_leading_slash:
  "(case p of [] \<Rightarrow> True | c # _ \<Rightarrow> c \<noteq> CHR ''/'') = (take 1 p \<noteq> ''/'')"
  by (cases p) simp_all

lemma createPage_valid:
  "schema (withDerivedKeys chunk pg) \<Longrightarrow>
     snd (createPage chunk schema pg pl)
       = Inr (Some (CREATE_PAGE pl (fst (createPage chunk schema pg pl))))
     \<and> fst (createPage chunk schema pg pl)
         = (if take 1 (path pg) \<noteq> ''/''
            then (withDerivedKeys chunk pg)\<lparr>path := ''/'' @ path pg\<rparr>
            else withDerivedKeys chunk pg)"
  by (simp add: createPage_def Let_def withDerivedKeys_path no_leading_slash)

text \<open>
  Claim C8. Whatever the other properties of the page, the chunk naming, the schema and
  the plugin are: a page with path \<^verbatim>\<open>/\<close> gets the \<^verbatim>\<open>jsonName\<close> \<^verbatim>\<open>index.json\<close> and the
  \<^verbatim>\<open>internalComponentName\<close> \<^verbatim>\<open>ComponentIndex\<close>; a page with path \<^verbatim>\<open>/blog/my-post\<close> gets
  \<^verbatim>\<open>blog-my-post.json\<close> and \<^verbatim>\<open>ComponentBlogMyPost\<close>; the two keys of every page are the
  kebab case and the Pascal case of its path, with the root case apart, so that two pages
  with the same path get the same two keys. A page that passes validation is returned as
  the payload of \<^verbatim>\<open>CREATE_PAGE\<close>; its path is the given path with a slash put in front when
  the given path does not begin with a slash (\<open>take 1 (path pg) \<noteq> ''/''\<close>), and the given
  path unchanged when it does; so the path \<^verbatim>\<open>about\<close> is returned as \<^verbatim>\<open>/about\<close>.
\<close>

theorem createPage_path_derivation:
  "jsonName (fst (createPage chunk schema (pg\<lparr>path := ''/''\<rparr>) pl)) = Some ''index.json''
   \<and> internalComponentName (fst (createPage chunk schema (pg\<lparr>path := ''/''\<rparr>) pl))
       = Some ''ComponentIndex''
   \<and> jsonName (fst (createPage chunk schema (pg\<lparr>path := ''/blog/my-post''\<rparr>) pl))
       = Some ''blog-my-post.json''
   \<and> internalComponentName (fst (createPage chunk schema (pg\<lparr>path := ''/blog/my-post''\<rparr>) pl))
       = Some ''ComponentBlogMyPost''
   \<and> jsonName (fst (createPage chunk schema pg pl))
       = Some (if kebabCase (path pg) = [] then ''index.json''
               else kebabCase (path pg) @ ''.json'')
   \<and> internalComponentName (fst (createPage chunk schema pg pl))
       = Some (if kebabCase (path pg) = [] then ''ComponentIndex''
               else ''Component'' @ pascalCase (path pg))
   \<and> jsonName (fst (createPage chunk' schema' (pg'\<lparr>path := path pg\<rparr>) pl'))
       = jsonName (fst (createPage chunk schema pg pl))
   \<and> internalComponentName (fst (createPage chunk' schema' (pg'\<lparr>path := path pg\<rparr>) pl'))
       = internalComponentName (fst (createPage chunk schema pg pl))
   \<and> (schema (withDerivedKeys chunk pg) \<and> take 1 (path pg) \<noteq> ''/'' \<longrightarrow>
        snd (createPage chunk schema pg pl)
          = Inr (Some (CREATE_PAGE pl (fst (createPage chunk schema pg pl))))
        \<and> fst (createPage chunk schema pg pl)
            = (withDerivedKeys chunk pg)\<lparr>path := ''/'' @ path pg\<rparr>)
   \<and> (schema (withDerivedKeys chunk pg) \<and> take 1 (path pg) = ''/'' \<longrightarrow>
        snd (createPage chunk schema pg pl)
          = Inr (Some (CREATE_PAGE pl (fst (createPage chunk schema pg pl))))
        \<and> fst (createPage chunk schema pg pl) = withDerivedKeys chunk pg)
   \<and> (schema (withDerivedKeys chunk (pg\<lparr>path := ''about''\<rparr>)) \<longrightarrow>
        snd (createPage chunk schema (pg\<lparr>path := ''about''\<rparr>) pl)
          = Inr (Some (CREATE_PAGE pl (fst (createPage chunk schema (pg\<lparr>path := ''about''\<rparr>) pl))))
        \<and> path (fst (createPage chunk schema (pg\<lparr>path := ''about''\<rparr>) pl)) = ''/about'')"
proof -
  have keys: "jsonName (fst (createPage c s q l))
                = Some (if kebabCase (path q) = [] then ''index.json''
                        else kebabCase (path q) @ ''.json'')
            \<and> internalComponentName (fst (createPage c s q l))
                = Some (if kebabCase (path q) = [] then ''ComponentIndex''
                        else ''Component'' @ pascalCase (path q))" for c s q l
    by (simp add: createPage_fst_keys withDerivedKeys_jsonName
          withDerivedKeys_internalComponentName)
  have root: "jsonName (fst (createPage chunk schema (pg\<lparr>path := ''/''\<rparr>) pl)) = Some ''index.json''
      \<and> internalComponentName (fst (createPage chunk schema (pg\<lparr>path := ''/''\<rparr>) pl))
          = Some ''ComponentIndex''"
    by (simp add: keys kebabCase_root)
  have blog: "jsonName (fst (createPage chunk schema (pg\<lparr>path := ''/blog/my-post''\<rparr>) pl))
          = Some ''blog-my-post.json''
      \<and> internalComponentName (fst (createPage chunk schema (pg\<lparr>path := ''/blog/my-post''\<rparr>) pl))
          = Some ''ComponentBlogMyPost''"
    by (simp add: keys kebabCase_blog pascalCase_blog)
  have same: "jsonName (fst (createPage chunk' schema' (pg'\<lparr>path := path pg\<rparr>) pl'))
          = jsonName (fst (createPage chunk schema pg pl))
      \<and> internalComponentName (fst (createPage chunk' schema' (pg'\<lparr>path := path pg\<rparr>) pl'))
          = internalComponentName (fst (createPage chunk schema pg pl))"
    by (simp add: keys)
  have slash: "schema (withDerivedKeys chunk pg) \<and> take 1 (path pg) \<noteq> ''/'' \<longrightarrow>
        snd (createPage chunk schema pg pl)
          = Inr (Some (CREATE_PAGE pl (fst (createPage chunk schema pg pl))))
        \<and> fst (createPage chunk schema pg pl)
            = (withDerivedKeys chunk pg)\<lparr>path := ''/'' @ path pg\<rparr>"
    using createPage_valid [of schema chunk pg pl] by simp
  have kept: "schema (withDerivedKeys chunk pg) \<and> take 1 (path pg) = ''/'' \<longrightarrow>
        snd (createPage chunk schema pg pl)
          = Inr (Some (CREATE_PAGE pl (fst (createPage chunk schema pg pl))))
        \<and> fst (createPage chunk schema pg pl) = withDerivedKeys chunk pg"
    using createPage_valid [of schema chunk pg pl] by simp
  have about: "schema (withDerivedKeys chunk (pg\<lparr>path := ''about''\<rparr>)) \<longrightarrow>
        snd (createPage chunk schema (pg\<lparr>path := ''about''\<rparr>) pl)
          = Inr (Some (CREATE_PAGE pl (fst (createPage chunk schema (pg\<lparr>path := ''about''\<rparr>) pl))))
        \<and> path (fst (createPage chunk schema (pg\<lparr>path := ''about''\<rparr>) pl)) = ''/about''"
    using createPage_valid [of schema chunk "pg\<lparr>path := ''about''\<rparr>" pl] by simp
  from root blog keys [of chunk schema pg pl] same slash kept about show ?thesis
    by (simp only: simp_thms)
qed

text \<open>
  The theorem on the examples: the valid page with the path \<^verbatim>\<open>about\<close> is returned with
  the path \<^verbatim>\<open>/about\<close>, and the valid page with the path \<^verbatim>\<open>/blog/my-post\<close> keeps its path.
\<close>

theorem createPage_path_derivation_witness:
  "examplePageSchema (withDerivedKeys exampleChunkName (examplePage ''about'' ''/about.js''))
   \<and> take 1 (path (examplePage ''about'' ''/about.js'')) \<noteq> ''/''
   \<and> snd (createPage exampleChunkName examplePageSchema (examplePage ''about'' ''/about.js'')
            (Some pluginP))
       = Inr (Some (CREATE_PAGE (Some pluginP)
           (fst (createPage exampleChunkName examplePageSchema
              (examplePage ''about'' ''/about.js'') (Some pluginP)))))
   \<and> path (fst (createPage exampleChunkName examplePageSchema
              (examplePage ''about'' ''/about.js'') (Some pluginP))) = ''/about''
   \<and> examplePageSchema
        (withDerivedKeys exampleChunkName (examplePage ''/blog/my-post'' ''/post.js''))
   \<and> take 1 (path (examplePage ''/blog/my-post'' ''/post.js'')) = ''/''
   \<and> path (fst (createPage exampleChunkName examplePageSchema
              (examplePage ''/blog/my-post'' ''/post.js'') (Some pluginP))) = ''/blog/my-post''
   \<and> jsonName (fst (createPage exampleChunkName examplePageSchema
              (examplePage ''/blog/my-post'' ''/post.js'') (Some pluginP)))
       = Some ''blog-my-post.json''"
proof -
  have same: "(examplePage p c)\<lparr>path := p\<rparr> = examplePage p c" for p c
    by (simp add: examplePage_def)
  have pathOf: "path (examplePage p c) = p" for p c
    by (simp add: examplePage_def)
  have valid: "examplePageSchema (withDerivedKeys exampleChunkName (examplePage ''about'' ''/about.js''))"
    "examplePageSchema (withDerivedKeys exampleChunkName (examplePage ''/blog/my-post'' ''/post.js''))"
    by (simp_all add: examplePageSchema_def withDerivedKeys_path)
       (simp_all add: withDerivedKeys_def Let_def examplePage_def)
  note about = createPage_path_derivation
         [of exampleChunkName examplePageSchema "examplePage ''about'' ''/about.js''"
             "Some pluginP"]
  note blog = createPage_path_derivation
         [of exampleChunkName examplePageSchema "examplePage ''/blog/my-post'' ''/post.js''"
             "Some pluginP"]
  from about blog valid show ?thesis
    by (simp add: same pathOf withDerivedKeys_path)
qed

section \<open>Creating nodes\<close>

lemma ensureInternal_setOwner:
  "ensureInternal (setOwner n pl) =
     (case pl of None \<Rightarrow> ensureInternal n | Some p \<Rightarrow> (ensureInternal n)\<lparr>owner := Some (name p)\<rparr>)"
  by (simp add: setOwner_def ensureInternal_def split: option.splits)

lemma typeKey_setOwner: "typeKey (setOwner n pl) = typeKey n"
  by (simp add: typeKey_def ensureInternal_setOwner split: option.splits)

lemma fields_setOwner: "fields' (setOwner n pl) = fields' n"
  by (simp add: setOwner_def split: option.splits)

lemma id_setOwner: "id' (setOwner n pl) = id' n"
  by (simp add: setOwner_def split: option.splits)

lemma nodeAfter_createNodeAfterTypeClaim:
  "nodeAfter (createNodeAfterTypeClaim st n p) = Some n"
  by (simp add: createNodeAfterTypeClaim_def split: option.splits)

lemma nodeAfter_createNode:
  "nodeAfter (createNode schema st (Some n) pl) = Some (setOwner n pl)"
  by (simp add: createNode_def Let_def nodeAfter_createNodeAfterTypeClaim split: option.splits)

lemma returned_createNodeAfterTypeClaim_not_validation:
  "returned (createNodeAfterTypeClaim st n p) \<noteq> Inr (Some VALIDATION_ERROR)"
  by (simp add: createNodeAfterTypeClaim_def split: option.splits)

lemma createNode_validation_iff:
  "(returned (createNode schema st (Some n) pl) = Inr (Some VALIDATION_ERROR))
     = (\<not> schema (setOwner n pl))"
  by (simp add: createNode_def Let_def returned_createNodeAfterTypeClaim_not_validation
      split: option.splits)

text \<open>
  Claim C10. For every call of \<^verbatim>\<open>createNode\<close> with a node object and a plugin, whatever
  the call returns or throws, the node object afterwards is the one passed in with
  \<^verbatim>\<open>internal\<close> created if it was absent and \<^verbatim>\<open>internal.owner\<close> set to the name of the
  plugin; and the validation is run on the node so changed: the call returns
  \<^verbatim>\<open>VALIDATION_ERROR\<close> exactly when the schema rejects the changed node.
\<close>

theorem createNode_sets_owner_before_validation:
  "nodeAfter (createNode schema st (Some n) (Some p))
     = Some (n\<lparr>internal :=
          Some ((case internal n of None \<Rightarrow> emptyInternal | Some i \<Rightarrow> i)\<lparr>owner := Some (name p)\<rparr>)\<rparr>)
   \<and> (returned (createNode schema st (Some n) (Some p)) = Inr (Some VALIDATION_ERROR))
       = (\<not> schema (n\<lparr>internal :=
          Some ((case internal n of None \<Rightarrow> emptyInternal | Some i \<Rightarrow> i)\<lparr>owner := Some (name p)\<rparr>)\<rparr>))"
proof -
  have changed: "setOwner n (Some p)
      = n\<lparr>internal :=
          Some ((case internal n of None \<Rightarrow> emptyInternal | Some i \<Rightarrow> i)\<lparr>owner := Some (name p)\<rparr>)\<rparr>"
    by (simp add: setOwner_def ensureInternal_def)
  have after: "nodeAfter (createNode schema st (Some n) (Some p)) = Some (setOwner n (Some p))"
    by (rule nodeAfter_createNode)
  have validated: "(returned (createNode schema st (Some n) (Some p)) = Inr (Some VALIDATION_ERROR))
      = (\<not> schema (setOwner n (Some p)))"
    by (rule createNode_validation_iff)
  from after validated show ?thesis
    by (simp only: changed simp_thms)
qed

lemma getNode_typeOwners_update: "getNode (st\<lparr>typeOwners := m\<rparr>) i = getNode st i"
  by (simp add: getNode_def)





text \<open>
  Evaluated on the example: \<open>pluginP\<close> creates its stored node \<^verbatim>\<open>a\<close> again, with the
  stored digest \<^verbatim>\<open>d1\<close> and with the new digest \<^verbatim>\<open>d2\<close>.
\<close>

lemmas example_defs = exampleNode_def exampleNodeSchema_def pluginP_def pluginQ_def stateP_def
  emptyState_def setOwner_def ensureInternal_def emptyInternal_def typeKey_def getNode_def
  bareNode_def presetFields_def getProperty_def setProperty_def objectPrototypeNames_def


lemma stateAfter_createNodeAfterTypeClaim:
  "stateAfter (createNodeAfterTypeClaim st n p) = st"
  by (simp add: createNodeAfterTypeClaim_def split: option.splits)

lemma createNode_fields_preset_valid:
  "fields' n \<noteq> None \<Longrightarrow> schema (setOwner n pl) \<Longrightarrow>
     createNode schema st (Some n) pl
       = \<lparr>stateAfter = st, nodeAfter = Some (setOwner n pl), returned = Inl ReservedFieldViolation\<rparr>"
  by (simp add: createNode_def Let_def fields_setOwner)

lemma createNode_invalid:
  "\<not> schema (setOwner n pl) \<Longrightarrow>
     createNode schema st (Some n) pl
       = \<lparr>stateAfter = st, nodeAfter = Some (setOwner n pl), returned = Inr (Some VALIDATION_ERROR)\<rparr>"
  by (simp add: createNode_def Let_def)

text \<open>
  Claim C5, as the code has it. For every node that sets \<^verbatim>\<open>fields\<close>, with any plugin or
  none: when the node passes validation, \<^verbatim>\<open>createNode\<close> throws the
  \<open>ReservedFieldViolation\<close>; when the node fails validation, the call returns
  \<^verbatim>\<open>VALIDATION_ERROR\<close>, since the validation of lines 186--192 comes before the check of
  \<^verbatim>\<open>fields\<close> at line 195. The state is unchanged in both cases.
\<close>

theorem createNode_fields_preset:
  assumes "fields' n \<noteq> None"
  shows "(schema (setOwner n pl) \<longrightarrow>
            returned (createNode schema st (Some n) pl) = Inl ReservedFieldViolation)
       \<and> (\<not> schema (setOwner n pl) \<longrightarrow>
            returned (createNode schema st (Some n) pl) = Inr (Some VALIDATION_ERROR))
       \<and> stateAfter (createNode schema st (Some n) pl) = st"
  using assms by (cases "schema (setOwner n pl)") (simp_all add: createNode_fields_preset_valid createNode_invalid)

lemma createNode_type_claimed_by_other:
  assumes "schema (setOwner n (Some q))" "fields' n = None"
    "truthy (getProperty (typeOwners st) (typeKey n))" "getProperty (typeOwners st) (typeKey n) \<noteq> Str (name q)"
  shows "createNode schema st (Some n) (Some q)
       = \<lparr>stateAfter = st, nodeAfter = Some (setOwner n (Some q)), returned = Inl OwnershipConflict\<rparr>"
  using assms by (simp add: createNode_def Let_def fields_setOwner typeKey_setOwner)

lemma createNode_type_unclaimed:
  assumes "schema (setOwner n (Some q))" "fields' n = None"
    "\<not> truthy (getProperty (typeOwners st) (typeKey n))"
  shows "createNode schema st (Some n) (Some q)
       = createNodeAfterTypeClaim (st\<lparr>typeOwners := setProperty (typeOwners st) (typeKey n) (name q)\<rparr>)
           (setOwner n (Some q)) q"
  using assms by (simp add: createNode_def Let_def fields_setOwner typeKey_setOwner)

lemma createNode_type_owned:
  assumes "schema (setOwner n (Some q))" "fields' n = None"
    "truthy (getProperty (typeOwners st) (typeKey n))" "getProperty (typeOwners st) (typeKey n) = Str (name q)"
  shows "createNode schema st (Some n) (Some q)
       = createNodeAfterTypeClaim st (setOwner n (Some q)) q"
  using assms by (simp add: createNode_def Let_def fields_setOwner typeKey_setOwner)

lemma afterTypeClaim_other_owner:
  assumes "getNode st (id' n) = Some old" "internal old = Some oi" "owner oi \<noteq> Some (name q)"
  shows "createNodeAfterTypeClaim st n q
       = \<lparr>stateAfter = st, nodeAfter = Some n, returned = Inl OwnershipViolation\<rparr>"
  using assms by (simp add: createNodeAfterTypeClaim_def)

text \<open>
  Claim C1, as the code has it. A node owned by plugin \<open>p\<close> is stored under the id of the
  incoming node, and a plugin \<open>q\<close> of another name calls \<^verbatim>\<open>createNode\<close> with a node that
  passes validation, sets no \<^verbatim>\<open>fields\<close> and has a content digest other than the stored
  one. Then the call throws:
  \<open>OwnershipConflict\<close> when the type of the incoming node is owned by a plugin other than
  \<open>q\<close>, and \<open>OwnershipViolation\<close> otherwise. The nodes of the store are unchanged, the
  owner of every type other than that of the incoming node is unchanged, and the whole
  state is unchanged when the type of the incoming node had an owner.
\<close>

theorem createNode_by_other_plugin_fails:
  assumes "schema (setOwner n (Some q))" and "fields' n = None"
    and "getNode st (id' n) = Some old" and "internal old = Some oi"
    and "owner oi = Some (name p)" and "name q \<noteq> name p"
    and "contentDigest (ensureInternal n) \<noteq> contentDigest oi"
  shows "returned (createNode schema st (Some n) (Some q))
           = (if truthy (getProperty (typeOwners st) (typeKey n)) \<and> getProperty (typeOwners st) (typeKey n) \<noteq> Str (name q)
              then Inl OwnershipConflict else Inl OwnershipViolation)
       \<and> nodes (stateAfter (createNode schema st (Some n) (Some q))) = nodes st
       \<and> (\<forall>t. t \<noteq> typeKey n \<longrightarrow>
             typeOwners (stateAfter (createNode schema st (Some n) (Some q))) t = typeOwners st t)
       \<and> (truthy (getProperty (typeOwners st) (typeKey n)) \<longrightarrow>
             stateAfter (createNode schema st (Some n) (Some q)) = st)"
proof -
  have other: "owner oi \<noteq> Some (name q)"
    using assms(5,6) by simp
  consider (conflict) "truthy (getProperty (typeOwners st) (typeKey n))" "getProperty (typeOwners st) (typeKey n) \<noteq> Str (name q)"
    | (owned) "truthy (getProperty (typeOwners st) (typeKey n))" "getProperty (typeOwners st) (typeKey n) = Str (name q)"
    | (unclaimed) "\<not> truthy (getProperty (typeOwners st) (typeKey n))"
    by blast
  then show ?thesis
  proof cases
    case conflict
    with assms(1,2) show ?thesis
      by (simp add: createNode_type_claimed_by_other)
  next
    case owned
    have "createNodeAfterTypeClaim st (setOwner n (Some q)) q
       = \<lparr>stateAfter = st, nodeAfter = Some (setOwner n (Some q)), returned = Inl OwnershipViolation\<rparr>"
      using assms(3,4) other by (intro afterTypeClaim_other_owner) (simp_all add: id_setOwner)
    with owned assms(1,2) show ?thesis
      by (simp add: createNode_type_owned)
  next
    case unclaimed
    let ?st = "st\<lparr>typeOwners := setProperty (typeOwners st) (typeKey n) (name q)\<rparr>"
    have "createNodeAfterTypeClaim ?st (setOwner n (Some q)) q
       = \<lparr>stateAfter = ?st, nodeAfter = Some (setOwner n (Some q)), returned = Inl OwnershipViolation\<rparr>"
      using assms(3,4) other
      by (intro afterTypeClaim_other_owner) (simp_all add: id_setOwner getNode_typeOwners_update)
    with unclaimed assms(1,2) show ?thesis
      by (simp add: createNode_type_unclaimed setProperty_def)
  qed
qed

lemma nodes_createNode: "nodes (stateAfter (createNode schema st arg pl)) = nodes st"
  by (simp add: createNode_def Let_def stateAfter_createNodeAfterTypeClaim
      split: option.splits)

lemma getProperty_own: "obj key = Some v \<Longrightarrow> getProperty obj key = Str v"
  by (simp add: getProperty_def)

lemma setProperty_falsy:
  "\<not> truthy (getProperty obj key) \<Longrightarrow> setProperty obj key v = obj(key \<mapsto> v)"
  by (auto simp add: setProperty_def getProperty_def objectPrototypeNames_def
      split: option.splits)

lemma setProperty_other: "t \<noteq> key \<Longrightarrow> setProperty obj key v t = obj t"
  by (simp add: setProperty_def)

lemma typeOwners_createNode_cases:
  "typeOwners (stateAfter (createNode schema st arg pl)) = typeOwners st
   \<or> (\<exists>key v. \<not> truthy (getProperty (typeOwners st) key)
         \<and> typeOwners (stateAfter (createNode schema st arg pl))
             = setProperty (typeOwners st) key v)"
proof (cases "\<exists>n p. arg = Some n \<and> pl = Some p \<and> schema (setOwner n (Some p))
                \<and> fields' n = None \<and> \<not> truthy (getProperty (typeOwners st) (typeKey n))")
  case True
  then obtain n p where call: "arg = Some n" "pl = Some p"
    and gates: "schema (setOwner n (Some p))" "fields' n = None"
      "\<not> truthy (getProperty (typeOwners st) (typeKey n))"
    by blast
  have "typeOwners (stateAfter (createNode schema st (Some n) (Some p)))
          = setProperty (typeOwners st) (typeKey n) (name p)"
    using gates by (simp add: createNode_type_unclaimed stateAfter_createNodeAfterTypeClaim)
  with call gates(3) show ?thesis
    by blast
next
  case False
  then have "typeOwners (stateAfter (createNode schema st arg pl)) = typeOwners st"
    by (auto simp add: createNode_def Let_def stateAfter_createNodeAfterTypeClaim
          fields_setOwner typeKey_setOwner split: option.splits)
  then show ?thesis
    by simp
qed

lemma typeOwners_createNode_owned:
  assumes "typeOwners st t = Some ow" and "ow \<noteq> []"
  shows "typeOwners (stateAfter (createNode schema st arg pl)) t = Some ow"
proof -
  from typeOwners_createNode_cases [of schema st arg pl]
  show ?thesis
  proof
    assume "typeOwners (stateAfter (createNode schema st arg pl)) = typeOwners st"
    with assms(1) show ?thesis by simp
  next
    assume "\<exists>key v. \<not> truthy (getProperty (typeOwners st) key)
         \<and> typeOwners (stateAfter (createNode schema st arg pl))
             = setProperty (typeOwners st) key v"
    then obtain key v where falsy: "\<not> truthy (getProperty (typeOwners st) key)"
      and written: "typeOwners (stateAfter (createNode schema st arg pl))
             = setProperty (typeOwners st) key v"
      by blast
    have "t \<noteq> key"
      using falsy assms by (auto simp add: getProperty_own)
    with written assms(1) show ?thesis
      by (simp add: setProperty_other)
  qed
qed

lemma typeOwners_run_owned:
  "typeOwners st t = Some ow \<Longrightarrow> ow \<noteq> [] \<Longrightarrow> typeOwners (run schema st steps) t = Some ow"
proof (induction steps arbitrary: st)
  case Nil
  then show ?case by simp
next
  case (Cons s steps)
  show ?case
  proof (cases s)
    case (CreateNodeCall arg pl)
    have "typeOwners (stateAfter (createNode schema st arg pl)) t = Some ow"
      using Cons.prems by (rule typeOwners_createNode_owned)
    then have "typeOwners (run schema (stateAfter (createNode schema st arg pl)) steps) t
                 = Some ow"
      using Cons.prems(2) by (rule Cons.IH)
    with CreateNodeCall show ?thesis by simp
  next
    case (StoreUpdate ns)
    have "typeOwners (st\<lparr>nodes := ns\<rparr>) t = Some ow"
      using Cons.prems(1) by simp
    then have "typeOwners (run schema (st\<lparr>nodes := ns\<rparr>) steps) t = Some ow"
      using Cons.prems(2) by (rule Cons.IH)
    with StoreUpdate show ?thesis by simp
  qed
qed

lemma typeOwners_createNode_claims:
  assumes "schema (setOwner n (Some p))" "fields' n = None"
    "\<not> truthy (getProperty (typeOwners st) (typeKey n))"
  shows "typeOwners (stateAfter (createNode schema st (Some n) (Some p))) (typeKey n)
           = Some (name p)"
  using assms
  by (simp add: createNode_type_unclaimed stateAfter_createNodeAfterTypeClaim setProperty_falsy)

lemma createNode_type_of_other_owner:
  assumes "typeOwners st (typeKey m) = Some ow" and "ow \<noteq> []" and "name q \<noteq> ow"
  shows "returned (createNode schema st (Some m) (Some q))
           = (if \<not> schema (setOwner m (Some q)) then Inr (Some VALIDATION_ERROR)
              else if fields' m \<noteq> None then Inl ReservedFieldViolation
              else Inl OwnershipConflict)
       \<and> stateAfter (createNode schema st (Some m) (Some q)) = st"
proof -
  have owned: "truthy (getProperty (typeOwners st) (typeKey m))"
    "getProperty (typeOwners st) (typeKey m) \<noteq> Str (name q)"
    using assms by (simp_all add: getProperty_own)
  show ?thesis
  proof (cases "schema (setOwner m (Some q))")
    case False
    then show ?thesis by (simp add: createNode_invalid)
  next
    case True
    show ?thesis
    proof (cases "fields' m = None")
      case False
      with True show ?thesis by (simp add: createNode_fields_preset_valid)
    next
      case nofields: True
      with True owned show ?thesis by (simp add: createNode_type_claimed_by_other)
    qed
  qed
qed

text \<open>
  Claim C2, as the code has it. The type of a node reads as unclaimed at line 217
  (\<^verbatim>\<open>typeOwners[type]\<close> is \<^verbatim>\<open>undefined\<close> or the empty string, which a name inherited from
  \<^verbatim>\<open>Object.prototype\<close> never is in the fresh registry), and a plugin \<open>p\<close> with a name that
  is not empty calls \<^verbatim>\<open>createNode\<close> with a node of that type that passes validation and
  sets no \<^verbatim>\<open>fields\<close>. Then \<open>p\<close> is recorded as the owner of the type, and after every
  history of further \<^verbatim>\<open>createNode\<close> calls and store updates the recorded owner is still
  \<open>p\<close>. After every such history, a \<^verbatim>\<open>createNode\<close> call with a node of that type by a
  plugin of another name does not succeed and leaves the state as it is: it returns
  \<^verbatim>\<open>VALIDATION_ERROR\<close> when the node fails validation, throws the
  \<open>ReservedFieldViolation\<close> when the node is valid and sets \<^verbatim>\<open>fields\<close>, and throws the
  \<open>OwnershipConflict\<close> otherwise.
\<close>

theorem type_owner_first_come_first_served:
  assumes "schema (setOwner n (Some p))" and "fields' n = None" and "name p \<noteq> []"
    and "\<not> truthy (getProperty (typeOwners st) (typeKey n))"
  shows "typeOwners (stateAfter (createNode schema st (Some n) (Some p))) (typeKey n)
           = Some (name p)
       \<and> (\<forall>steps.
             typeOwners (run schema (stateAfter (createNode schema st (Some n) (Some p))) steps)
               (typeKey n) = Some (name p)
             \<and> (\<forall>m q. typeKey m = typeKey n \<and> name q \<noteq> name p \<longrightarrow>
                   returned (createNode schema
                       (run schema (stateAfter (createNode schema st (Some n) (Some p))) steps)
                       (Some m) (Some q))
                     = (if \<not> schema (setOwner m (Some q)) then Inr (Some VALIDATION_ERROR)
                        else if fields' m \<noteq> None then Inl ReservedFieldViolation
                        else Inl OwnershipConflict)
                   \<and> stateAfter (createNode schema
                       (run schema (stateAfter (createNode schema st (Some n) (Some p))) steps)
                       (Some m) (Some q))
                     = run schema (stateAfter (createNode schema st (Some n) (Some p))) steps))"
proof -
  let ?st1 = "stateAfter (createNode schema st (Some n) (Some p))"
  have first: "typeOwners ?st1 (typeKey n) = Some (name p)"
    using assms(1,2,4) by (rule typeOwners_createNode_claims)
  have later: "typeOwners (run schema ?st1 steps) (typeKey n) = Some (name p)" for steps
    using first assms(3) by (rule typeOwners_run_owned)
  have refused:
    "returned (createNode schema (run schema ?st1 steps) (Some m) (Some q))
       = (if \<not> schema (setOwner m (Some q)) then Inr (Some VALIDATION_ERROR)
          else if fields' m \<noteq> None then Inl ReservedFieldViolation
          else Inl OwnershipConflict)
     \<and> stateAfter (createNode schema (run schema ?st1 steps) (Some m) (Some q))
         = run schema ?st1 steps"
    if "typeKey m = typeKey n" "name q \<noteq> name p" for steps m q
  proof -
    have "typeOwners (run schema ?st1 steps) (typeKey m) = Some (name p)"
      using later [of steps] that(1) by simp
    then show ?thesis
      using assms(3) that(2) by (rule createNode_type_of_other_owner)
  qed
  from first later refused show ?thesis
    by blast
qed

text \<open>
  Claim C5 as stated fails: a node with \<^verbatim>\<open>fields\<close> set and without \<^verbatim>\<open>internal.type\<close> and
  \<^verbatim>\<open>internal.contentDigest\<close> is rejected by the example schema, and \<^verbatim>\<open>createNode\<close> returns
  \<^verbatim>\<open>VALIDATION_ERROR\<close> instead of throwing.
\<close>

theorem createNode_fields_preset_counterexample:
  "fields' (presetFields (bareNode ''a'')) \<noteq> None
   \<and> returned (createNode exampleNodeSchema emptyState (Some (presetFields (bareNode ''a'')))
         (Some pluginP)) = Inr (Some VALIDATION_ERROR)
   \<and> returned (createNode exampleNodeSchema emptyState (Some (presetFields (bareNode ''a'')))
         (Some pluginP)) \<noteq> Inl ReservedFieldViolation"
  by (simp add: createNode_def Let_def example_defs)

text \<open>
  The theorem on a valid and on an invalid node that set \<^verbatim>\<open>fields\<close>.
\<close>

theorem createNode_fields_preset_witness:
  "fields' (presetFields (exampleNode ''a'' ''Post'' ''d1'')) \<noteq> None
   \<and> exampleNodeSchema (setOwner (presetFields (exampleNode ''a'' ''Post'' ''d1'')) (Some pluginP))
   \<and> returned (createNode exampleNodeSchema emptyState
         (Some (presetFields (exampleNode ''a'' ''Post'' ''d1''))) (Some pluginP))
       = Inl ReservedFieldViolation
   \<and> fields' (presetFields (bareNode ''a'')) \<noteq> None
   \<and> \<not> exampleNodeSchema (setOwner (presetFields (bareNode ''a'')) (Some pluginP))
   \<and> returned (createNode exampleNodeSchema emptyState (Some (presetFields (bareNode ''a'')))
         (Some pluginP)) = Inr (Some VALIDATION_ERROR)
   \<and> stateAfter (createNode exampleNodeSchema emptyState
         (Some (presetFields (exampleNode ''a'' ''Post'' ''d1''))) (Some pluginP)) = emptyState"
proof -
  have f1: "fields' (presetFields (exampleNode ''a'' ''Post'' ''d1'')) \<noteq> None"
    by (simp add: example_defs)
  have v1: "exampleNodeSchema
              (setOwner (presetFields (exampleNode ''a'' ''Post'' ''d1'')) (Some pluginP))"
    by (simp add: example_defs)
  have f2: "fields' (presetFields (bareNode ''a'')) \<noteq> None"
    by (simp add: example_defs)
  have v2: "\<not> exampleNodeSchema (setOwner (presetFields (bareNode ''a'')) (Some pluginP))"
    by (simp add: example_defs)
  note valid = createNode_fields_preset
    [where n = "presetFields (exampleNode ''a'' ''Post'' ''d1'')" and schema = exampleNodeSchema
       and pl = "Some pluginP" and st = emptyState, OF f1]
  note invalid = createNode_fields_preset
    [where n = "presetFields (bareNode ''a'')" and schema = exampleNodeSchema
       and pl = "Some pluginP" and st = emptyState, OF f2]
  from valid invalid f1 v1 f2 v2 show ?thesis
    by simp
qed

text \<open>
  Claim C1 as stated fails twice on the example state, in which \<open>pluginP\<close> owns the node
  \<^verbatim>\<open>a\<close> and the type \<^verbatim>\<open>Post\<close>. When \<open>pluginQ\<close> passes a node \<^verbatim>\<open>a\<close> of type \<^verbatim>\<open>Post\<close> with
  another digest, the error is the \<open>OwnershipConflict\<close> of line 221, which comes before
  the check of the node owner. When \<open>pluginQ\<close> passes a node \<^verbatim>\<open>a\<close> of the unclaimed type
  \<^verbatim>\<open>Page\<close>, the error is the \<open>OwnershipViolation\<close>, but line 218 has recorded \<open>pluginQ\<close> as
  the owner of \<^verbatim>\<open>Page\<close> before the call throws.
\<close>

theorem createNode_by_other_plugin_fails_counterexample:
  "getNode stateP ''a'' = Some (setOwner (exampleNode ''a'' ''Post'' ''d1'') (Some pluginP))
   \<and> name pluginQ \<noteq> name pluginP
   \<and> returned (createNode exampleNodeSchema stateP (Some (exampleNode ''a'' ''Post'' ''d2''))
         (Some pluginQ)) = Inl OwnershipConflict
   \<and> returned (createNode exampleNodeSchema stateP (Some (exampleNode ''a'' ''Page'' ''d2''))
         (Some pluginQ)) = Inl OwnershipViolation
   \<and> typeOwners stateP ''Page'' = None
   \<and> typeOwners (stateAfter (createNode exampleNodeSchema stateP
         (Some (exampleNode ''a'' ''Page'' ''d2'')) (Some pluginQ))) ''Page'' = Some ''source-q''"
  by (simp add: createNode_def createNodeAfterTypeClaim_def Let_def example_defs)

text \<open>
  The theorem on the two calls of the example.
\<close>

theorem createNode_by_other_plugin_fails_witness:
  "returned (createNode exampleNodeSchema stateP (Some (exampleNode ''a'' ''Post'' ''d2''))
         (Some pluginQ)) = Inl OwnershipConflict
   \<and> stateAfter (createNode exampleNodeSchema stateP (Some (exampleNode ''a'' ''Post'' ''d2''))
         (Some pluginQ)) = stateP
   \<and> returned (createNode exampleNodeSchema stateP (Some (exampleNode ''a'' ''Page'' ''d2''))
         (Some pluginQ)) = Inl OwnershipViolation
   \<and> nodes (stateAfter (createNode exampleNodeSchema stateP
         (Some (exampleNode ''a'' ''Page'' ''d2'')) (Some pluginQ))) = nodes stateP
   \<and> typeOwners (stateAfter (createNode exampleNodeSchema stateP
         (Some (exampleNode ''a'' ''Page'' ''d2'')) (Some pluginQ))) ''Post''
       = typeOwners stateP ''Post''"
proof -
  define old where "old = setOwner (exampleNode ''a'' ''Post'' ''d1'') (Some pluginP)"
  define oi where "oi = ensureInternal old"
  have valid: "exampleNodeSchema (setOwner (exampleNode ''a'' t ''d2'') (Some pluginQ))" for t
    by (simp add: example_defs)
  have nofields: "fields' (exampleNode ''a'' t ''d2'') = None" for t
    by (simp add: example_defs)
  have stored: "getNode stateP (id' (exampleNode ''a'' t ''d2'')) = Some old" for t
    by (simp add: old_def example_defs)
  have int: "internal old = Some oi"
    by (simp add: old_def oi_def example_defs)
  have own: "owner oi = Some (name pluginP)"
    by (simp add: old_def oi_def example_defs)
  have other: "name pluginQ \<noteq> name pluginP"
    by (simp add: example_defs)
  have digest: "contentDigest (ensureInternal (exampleNode ''a'' t ''d2'')) \<noteq> contentDigest oi"
    for t
    by (simp add: old_def oi_def example_defs)
  note post = createNode_by_other_plugin_fails
    [where schema = exampleNodeSchema and n = "exampleNode ''a'' ''Post'' ''d2''"
       and q = pluginQ and p = pluginP and st = stateP and old = old and oi = oi,
     OF valid nofields stored int own other digest]
  note page = createNode_by_other_plugin_fails
    [where schema = exampleNodeSchema and n = "exampleNode ''a'' ''Page'' ''d2''"
       and q = pluginQ and p = pluginP and st = stateP and old = old and oi = oi,
     OF valid nofields stored int own other digest]
  have keyPost: "typeKey (exampleNode ''a'' ''Post'' ''d2'') = ''Post''"
    by (simp add: example_defs)
  have keyPage: "typeKey (exampleNode ''a'' ''Page'' ''d2'') = ''Page''"
    by (simp add: example_defs)
  have ownersPost: "getProperty (typeOwners stateP) ''Post'' = Str ''source-p''"
    "typeOwners stateP ''Post'' = Some ''source-p''"
    by (simp_all add: example_defs)
  have ownersPage: "getProperty (typeOwners stateP) ''Page'' = Undefined"
    by (simp add: example_defs)
  have nameQ: "name pluginQ = ''source-q''"
    by (simp add: example_defs)
  from post page show ?thesis
    by (simp add: keyPost keyPage ownersPost ownersPage nameQ)
qed

text \<open>
  Claim C2 as stated fails on the examples. A later call by \<open>pluginQ\<close> with a node of the
  type \<^verbatim>\<open>Post\<close>, which \<open>pluginP\<close> owns, throws the \<open>ReservedFieldViolation\<close> when the node
  sets \<^verbatim>\<open>fields\<close> and returns \<^verbatim>\<open>VALIDATION_ERROR\<close> when the node has an empty id: neither
  is the \<open>OwnershipConflict\<close>. And in the empty registry the first plugin to create a
  node of the type \<^verbatim>\<open>constructor\<close> does not become its owner: line 217 reads the member
  that \<^verbatim>\<open>typeOwners\<close> inherits, and line 221 throws.
\<close>

theorem type_owner_first_come_first_served_counterexample:
  "typeOwners stateP ''Post'' = Some (name pluginP)
   \<and> name pluginQ \<noteq> name pluginP
   \<and> typeKey (presetFields (exampleNode ''b'' ''Post'' ''d7'')) = ''Post''
   \<and> returned (createNode exampleNodeSchema stateP
         (Some (presetFields (exampleNode ''b'' ''Post'' ''d7''))) (Some pluginQ))
       = Inl ReservedFieldViolation
   \<and> typeKey (exampleNode [] ''Post'' ''d7'') = ''Post''
   \<and> returned (createNode exampleNodeSchema stateP (Some (exampleNode [] ''Post'' ''d7''))
         (Some pluginQ))
       = Inr (Some VALIDATION_ERROR)
   \<and> typeOwners emptyState ''constructor'' = None
   \<and> typeKey (exampleNode ''a'' ''constructor'' ''d1'') = ''constructor''
   \<and> returned (createNode exampleNodeSchema emptyState
         (Some (exampleNode ''a'' ''constructor'' ''d1'')) (Some pluginP))
       = Inl OwnershipConflict
   \<and> typeOwners (stateAfter (createNode exampleNodeSchema emptyState
         (Some (exampleNode ''a'' ''constructor'' ''d1'')) (Some pluginP))) ''constructor''
       = None"
  by (simp add: createNode_def Let_def example_defs)

text \<open>
  The theorem on the example: \<open>pluginP\<close> claims \<^verbatim>\<open>Post\<close> in the empty state, the store is
  updated, \<open>pluginQ\<close> tries to create a node of type \<^verbatim>\<open>Post\<close> and tries again.
\<close>

theorem type_owner_first_come_first_served_witness:
  "exampleNodeSchema (setOwner (exampleNode ''a'' ''Post'' ''d1'') (Some pluginP))
   \<and> fields' (exampleNode ''a'' ''Post'' ''d1'') = None
   \<and> name pluginP \<noteq> []
   \<and> \<not> truthy (getProperty (typeOwners emptyState) (typeKey (exampleNode ''a'' ''Post'' ''d1'')))
   \<and> typeOwners (stateAfter (createNode exampleNodeSchema emptyState
         (Some (exampleNode ''a'' ''Post'' ''d1'')) (Some pluginP))) ''Post'' = Some ''source-p''
   \<and> typeOwners (run exampleNodeSchema
         (stateAfter (createNode exampleNodeSchema emptyState
            (Some (exampleNode ''a'' ''Post'' ''d1'')) (Some pluginP)))
         [StoreUpdate (nodes stateP),
          CreateNodeCall (Some (exampleNode ''b'' ''Post'' ''d7'')) (Some pluginQ)]) ''Post''
       = Some ''source-p''
   \<and> typeKey (exampleNode ''c'' ''Post'' ''d8'') = typeKey (exampleNode ''a'' ''Post'' ''d1'')
   \<and> name pluginQ \<noteq> name pluginP
   \<and> returned (createNode exampleNodeSchema
         (run exampleNodeSchema
            (stateAfter (createNode exampleNodeSchema emptyState
               (Some (exampleNode ''a'' ''Post'' ''d1'')) (Some pluginP)))
            [StoreUpdate (nodes stateP),
             CreateNodeCall (Some (exampleNode ''b'' ''Post'' ''d7'')) (Some pluginQ)])
         (Some (exampleNode ''c'' ''Post'' ''d8'')) (Some pluginQ))
       = Inl OwnershipConflict"
proof -
  have valid: "exampleNodeSchema (setOwner (exampleNode ''a'' ''Post'' ''d1'') (Some pluginP))"
    and valid': "exampleNodeSchema (setOwner (exampleNode ''c'' ''Post'' ''d8'') (Some pluginQ))"
    by (simp_all add: example_defs)
  have nofields: "fields' (exampleNode i ''Post'' d) = None" for i d
    by (simp add: example_defs)
  have nameP: "name pluginP \<noteq> []" "name pluginQ \<noteq> name pluginP"
    by (simp_all add: example_defs)
  have nameP': "name pluginP = ''source-p''"
    by (simp add: example_defs)
  have key: "typeKey (exampleNode i ''Post'' d) = ''Post''" for i d
    by (simp add: example_defs)
  have unclaimed:
    "\<not> truthy (getProperty (typeOwners emptyState) (typeKey (exampleNode ''a'' ''Post'' ''d1'')))"
    by (simp add: example_defs)
  note fcfs = type_owner_first_come_first_served
    [where schema = exampleNodeSchema and n = "exampleNode ''a'' ''Post'' ''d1''"
       and p = pluginP and st = emptyState, OF valid nofields nameP(1) unclaimed]
  note first = fcfs [THEN conjunct1]
  note later = fcfs [THEN conjunct2, THEN spec,
    of "[StoreUpdate (nodes stateP),
         CreateNodeCall (Some (exampleNode ''b'' ''Post'' ''d7'')) (Some pluginQ)]"]
  note kept = later [THEN conjunct1]
  have "typeKey (exampleNode ''c'' ''Post'' ''d8'') = typeKey (exampleNode ''a'' ''Post'' ''d1'')
      \<and> name pluginQ \<noteq> name pluginP"
    by (simp add: key nameP)
  from later [THEN conjunct2, THEN spec, THEN spec, THEN mp, OF this]
  have conflict: "returned (createNode exampleNodeSchema
         (run exampleNodeSchema
            (stateAfter (createNode exampleNodeSchema emptyState
               (Some (exampleNode ''a'' ''Post'' ''d1'')) (Some pluginP)))
            [StoreUpdate (nodes stateP),
             CreateNodeCall (Some (exampleNode ''b'' ''Post'' ''d7'')) (Some pluginQ)])
         (Some (exampleNode ''c'' ''Post'' ''d8'')) (Some pluginQ))
       = Inl OwnershipConflict"
    by (simp only: valid' nofields simp_thms if_True if_False)
  from first kept conflict valid nofields nameP unclaimed show ?thesis
    by (simp only: key nameP' simp_thms)
qed

lemma afterTypeClaim_success_owner:
  assumes "getNode st (id' n) = Some old"
    and "returned (createNodeAfterTypeClaim st n p) = Inr r"
  shows "\<exists>oi. internal old = Some oi \<and> owner oi = Some (name p)"
  using assms by (auto simp add: createNodeAfterTypeClaim_def split: option.splits if_splits)

lemma createNode_success_owner:
  assumes "getNode st (id' n) = Some old"
    and "returned (createNode schema st (Some n) pl) = Inr (Some a)" and "a \<noteq> VALIDATION_ERROR"
  shows "\<exists>p oi. pl = Some p \<and> internal old = Some oi \<and> owner oi = Some (name p)"
proof (cases pl)
  case None
  with assms(2,3) show ?thesis
    by (auto simp add: createNode_def Let_def split: if_splits)
next
  case (Some p)
  have "\<exists>st'. returned (createNodeAfterTypeClaim st' (setOwner n (Some p)) p) = Inr (Some a)
          \<and> getNode st' (id' n) = Some old"
    using assms Some
    by (auto simp add: createNode_def Let_def getNode_typeOwners_update split: if_splits)
  then obtain st' where
    "returned (createNodeAfterTypeClaim st' (setOwner n (Some p)) p) = Inr (Some a)"
    "getNode st' (id' (setOwner n (Some p))) = Some old"
    by (auto simp add: id_setOwner)
  then have "\<exists>oi. internal old = Some oi \<and> owner oi = Some (name p)"
    using afterTypeClaim_success_owner by blast
  with Some show ?thesis by simp
qed

lemma createNodeField_unowned:
  assumes "internal m = Some mi" "\<not> truthy (fieldOwnerOf m f)"
  shows "snd (createNodeField m f v (Some q))
           = Inr (Some (ADD_FIELD_TO_NODE (Some q) (fst (createNodeField m f v (Some q)))))"
  using assms
  by (auto simp add: createNodeField_def fieldOwnerOf_def Let_def split: option.splits)

section \<open>Who may change a node\<close>

text \<open>
  Claim C3, as the code has it. When a node is stored under the id of the incoming node,
  \<^verbatim>\<open>createNode\<close> returns \<^verbatim>\<open>CREATE_NODE\<close> or \<^verbatim>\<open>TOUCH_NODE\<close> only for the plugin whose name
  is the owner of the stored node, the incoming node being an object of its own and not
  the stored object. \<^verbatim>\<open>createNodeField\<close> does not look at the owner of the node: on a
  field that has no owner it succeeds for every plugin. \<^verbatim>\<open>deleteNode\<close> and
  \<^verbatim>\<open>deleteNodes\<close> check nothing and return their action for every plugin.
\<close>

theorem mutation_owner_checks:
  "(getNode st (id' n) = Some old
      \<and> returned (createNode schema st (Some n) pl) = Inr (Some a) \<and> a \<noteq> VALIDATION_ERROR
      \<longrightarrow> (\<exists>p oi. pl = Some p \<and> internal old = Some oi \<and> owner oi = Some (name p)))
   \<and> (internal m = Some mi \<and> \<not> truthy (fieldOwnerOf m f) \<longrightarrow>
        snd (createNodeField m f v (Some q))
          = Inr (Some (ADD_FIELD_TO_NODE (Some q) (fst (createNodeField m f v (Some q))))))
   \<and> deleteNode i pl' = Inr (Some (DELETE_NODE pl' i))
   \<and> deleteNodes ids pl' = Inr (Some (DELETE_NODES pl' ids))"
  using createNode_success_owner [of st n old schema pl a] createNodeField_unowned [of m mi f v q]
  by (simp add: deleteNode_def deleteNodes_def)

text \<open>
  Claim C3 as stated fails: \<open>pluginQ\<close> deletes the node \<^verbatim>\<open>a\<close> that \<open>pluginP\<close> owns, alone
  and in a batch, and adds the field \<^verbatim>\<open>slug\<close> to it, and every call succeeds.
\<close>

theorem mutation_owner_checks_counterexample:
  "getNode stateP ''a'' = Some (setOwner (exampleNode ''a'' ''Post'' ''d1'') (Some pluginP))
   \<and> owner (ensureInternal (setOwner (exampleNode ''a'' ''Post'' ''d1'') (Some pluginP)))
       = Some (name pluginP)
   \<and> name pluginQ \<noteq> name pluginP
   \<and> deleteNode ''a'' (Some pluginQ) = Inr (Some (DELETE_NODE (Some pluginQ) ''a''))
   \<and> deleteNodes [''a''] (Some pluginQ) = Inr (Some (DELETE_NODES (Some pluginQ) [''a'']))
   \<and> snd (createNodeField (setOwner (exampleNode ''a'' ''Post'' ''d1'') (Some pluginP))
         ''slug'' ''/a/'' (Some pluginQ))
       = Inr (Some (ADD_FIELD_TO_NODE (Some pluginQ)
           (fst (createNodeField (setOwner (exampleNode ''a'' ''Post'' ''d1'') (Some pluginP))
              ''slug'' ''/a/'' (Some pluginQ)))))
   \<and> fieldValueOf (fst (createNodeField (setOwner (exampleNode ''a'' ''Post'' ''d1'') (Some pluginP))
              ''slug'' ''/a/'' (Some pluginQ))) ''slug'' = Some ''/a/''"
  by (simp add: deleteNode_def deleteNodes_def createNodeField_def fieldValueOf_def Let_def example_defs)

text \<open>
  The theorem on the example: \<open>pluginP\<close> updates its own node, and \<open>pluginQ\<close> adds a field
  to it.
\<close>

theorem mutation_owner_checks_witness:
  "getNode stateP (id' (exampleNode ''a'' ''Post'' ''d2''))
      = Some (setOwner (exampleNode ''a'' ''Post'' ''d1'') (Some pluginP))
   \<and> returned (createNode exampleNodeSchema stateP (Some (exampleNode ''a'' ''Post'' ''d2''))
         (Some pluginP))
       = Inr (Some (CREATE_NODE (Some pluginP)
           (setOwner (exampleNode ''a'' ''Post'' ''d2'') (Some pluginP))))
   \<and> (\<exists>p oi. Some pluginP = Some p
         \<and> internal (setOwner (exampleNode ''a'' ''Post'' ''d1'') (Some pluginP)) = Some oi
         \<and> owner oi = Some (name p))
   \<and> \<not> truthy (fieldOwnerOf (setOwner (exampleNode ''a'' ''Post'' ''d1'') (Some pluginP)) ''slug'')
   \<and> snd (createNodeField (setOwner (exampleNode ''a'' ''Post'' ''d1'') (Some pluginP))
         ''slug'' ''/a/'' (Some pluginQ))
       = Inr (Some (ADD_FIELD_TO_NODE (Some pluginQ)
           (fst (createNodeField (setOwner (exampleNode ''a'' ''Post'' ''d1'') (Some pluginP))
              ''slug'' ''/a/'' (Some pluginQ)))))"
proof -
  have stored: "getNode stateP (id' (exampleNode ''a'' ''Post'' ''d2''))
      = Some (setOwner (exampleNode ''a'' ''Post'' ''d1'') (Some pluginP))"
    by (simp add: example_defs)
  have created: "returned (createNode exampleNodeSchema stateP
        (Some (exampleNode ''a'' ''Post'' ''d2'')) (Some pluginP))
       = Inr (Some (CREATE_NODE (Some pluginP)
           (setOwner (exampleNode ''a'' ''Post'' ''d2'') (Some pluginP))))"
    by (simp add: createNode_def createNodeAfterTypeClaim_def hasNodeChanged_def Let_def
          example_defs)
  have int: "internal (setOwner (exampleNode ''a'' ''Post'' ''d1'') (Some pluginP))
      = Some (ensureInternal (setOwner (exampleNode ''a'' ''Post'' ''d1'') (Some pluginP)))"
    by (simp add: example_defs)
  have unowned: "\<not> truthy (fieldOwnerOf
      (setOwner (exampleNode ''a'' ''Post'' ''d1'') (Some pluginP)) ''slug'')"
    by (simp add: fieldOwnerOf_def example_defs)
  note checks = mutation_owner_checks
    [where st = stateP and n = "exampleNode ''a'' ''Post'' ''d2''"
       and old = "setOwner (exampleNode ''a'' ''Post'' ''d1'') (Some pluginP)"
       and schema = exampleNodeSchema and pl = "Some pluginP"
       and a = "CREATE_NODE (Some pluginP) (setOwner (exampleNode ''a'' ''Post'' ''d2'') (Some pluginP))"
       and m = "setOwner (exampleNode ''a'' ''Post'' ''d1'') (Some pluginP)"
       and mi = "ensureInternal (setOwner (exampleNode ''a'' ''Post'' ''d1'') (Some pluginP))"
       and f = "''slug''" and v = "''/a/''" and q = pluginQ]
  from checks stored created int unowned show ?thesis
    by simp
qed

section \<open>Fields of a node\<close>










section \<open>Records that fail validation\<close>

text \<open>
  Claim C7, on a failing input. A page without a component is rejected by the example
  page schema, and \<^verbatim>\<open>createPage\<close> returns \<^verbatim>\<open>undefined\<close> (line 73): no structured error
  reaches the caller. On a node that the example node schema rejects, \<^verbatim>\<open>createNode\<close>
  returns the action \<^verbatim>\<open>VALIDATION_ERROR\<close> (line 191).
\<close>

theorem createPage_invalid_returns_undefined:
  "\<not> examplePageSchema (withDerivedKeys exampleChunkName (examplePage ''/about'' []))
   \<and> snd (createPage exampleChunkName examplePageSchema (examplePage ''/about'' []) (Some pluginP))
       = Inr None
   \<and> \<not> exampleNodeSchema (setOwner (bareNode ''a'') (Some pluginP))
   \<and> returned (createNode exampleNodeSchema emptyState (Some (bareNode ''a'')) (Some pluginP))
       = Inr (Some VALIDATION_ERROR)"
  by (simp add: createPage_def createNode_def Let_def examplePageSchema_def examplePage_def
        withDerivedKeys_def example_defs)

section \<open>The node object after a failed call\<close>

text \<open>
  The theorem of claim C10 on two calls of \<open>pluginQ\<close> that fail: a node with an id only
  fails validation, and a node of the type \<^verbatim>\<open>Post\<close>, which \<open>pluginP\<close> owns, runs into the
  \<open>OwnershipConflict\<close>. Both node objects carry the owner \<^verbatim>\<open>source-q\<close> afterwards.
\<close>

theorem createNode_sets_owner_before_validation_witness:
  "returned (createNode exampleNodeSchema stateP (Some (bareNode ''b'')) (Some pluginQ))
     = Inr (Some VALIDATION_ERROR)
   \<and> nodeAfter (createNode exampleNodeSchema stateP (Some (bareNode ''b'')) (Some pluginQ))
       = Some ((bareNode ''b'')\<lparr>internal := Some (emptyInternal\<lparr>owner := Some ''source-q''\<rparr>)\<rparr>)
   \<and> returned (createNode exampleNodeSchema stateP (Some (exampleNode ''a'' ''Post'' ''d2''))
         (Some pluginQ)) = Inl OwnershipConflict
   \<and> nodeAfter (createNode exampleNodeSchema stateP (Some (exampleNode ''a'' ''Post'' ''d2''))
         (Some pluginQ))
       = Some ((exampleNode ''a'' ''Post'' ''d2'')\<lparr>internal :=
           Some \<lparr>type = Some ''Post'', owner = Some ''source-q'', contentDigest = Some ''d2'',
                  fieldOwners = None, mediaType = Some ''text/x-markdown'', content = None\<rparr>\<rparr>)"
proof -
  note bare = createNode_sets_owner_before_validation
    [where schema = exampleNodeSchema and st = stateP and n = "bareNode ''b''" and p = pluginQ]
  note post = createNode_sets_owner_before_validation
    [where schema = exampleNodeSchema and st = stateP and n = "exampleNode ''a'' ''Post'' ''d2''"
       and p = pluginQ]
  have conflict: "returned (createNode exampleNodeSchema stateP
        (Some (exampleNode ''a'' ''Post'' ''d2'')) (Some pluginQ)) = Inl OwnershipConflict"
    by (simp add: createNode_def Let_def example_defs)
  from bare post conflict show ?thesis
    by (simp add: example_defs)
qed

end
